theory Spec2Isabelle
  imports Main "HOL-Library.AList"
begin

section \<open>Python values, errors and datetimes\<close>

text \<open>
  The messaging core of the repository lives in \<^verbatim>\<open>agents/base_agent.py\<close>
  (the envelope \<^verbatim>\<open>MCPMessage\<close> and \<^verbatim>\<open>BaseAgent\<close>),
  \<^verbatim>\<open>messaging/message_bus.py\<close> (\<^verbatim>\<open>MessageBus\<close>,
  \<^verbatim>\<open>EnhancedAgentRegistry\<close>) and \<^verbatim>\<open>models/__init__.py\<close>
  (\<^verbatim>\<open>AgentMessage\<close>, \<^verbatim>\<open>MessageType\<close>).

  A payload is a Python dict with string keys and arbitrary values. \<open>PyObject t\<close> stands
  for any object that is not one of the JSON types (a datetime, a set, an instance of a
  class); \<open>t\<close> is the name of its type.
\<close>

datatype pyval =
    PyNone
  | PyBool bool
  | PyInt int
  | PyStr string
  | PyList "pyval list"
  | PyDict "(string \<times> pyval) list"
  | PyObject string

type_synonym pydict = "(string \<times> pyval) list"

datatype py_error =
    TypeError string | ValueError string | KeyError string | OverflowError string

text \<open>\<^verbatim>\<open>str(e)\<close> of an exception built from one message string. (For a KeyError
  Python shows the repr of the key; no claim reads that text.)\<close>

fun str_of_error :: "py_error \<Rightarrow> string" where
  "str_of_error (TypeError s) = s"
| "str_of_error (ValueError s) = s"
| "str_of_error (KeyError s) = s"
| "str_of_error (OverflowError s) = s"

text \<open>
  \<^verbatim>\<open>json.dumps(o, indent=2)\<close> walks the value depth first in insertion order and
  raises \<^verbatim>\<open>TypeError("Object of type T is not JSON serializable")\<close> at the first
  object that is not a JSON type. \<open>json_reject\<close> returns the type name of that object,
  or \<open>None\<close> when the dump succeeds.
\<close>

fun json_reject :: "pyval \<Rightarrow> string option"
  and json_reject_list :: "pyval list \<Rightarrow> string option"
  and json_reject_items :: "(string \<times> pyval) list \<Rightarrow> string option" where
  "json_reject PyNone = None"
| "json_reject (PyBool b) = None"
| "json_reject (PyInt i) = None"
| "json_reject (PyStr s) = None"
| "json_reject (PyList xs) = json_reject_list xs"
| "json_reject (PyDict kvs) = json_reject_items kvs"
| "json_reject (PyObject t) = Some t"
| "json_reject_list [] = None"
| "json_reject_list (x # xs) =
     (case json_reject x of Some t \<Rightarrow> Some t | None \<Rightarrow> json_reject_list xs)"
| "json_reject_items [] = None"
| "json_reject_items (kv # kvs) =
     (case json_reject (snd kv) of Some t \<Rightarrow> Some t | None \<Rightarrow> json_reject_items kvs)"

definition json_dumps :: "pyval \<Rightarrow> py_error + unit" where
  "json_dumps v =
     (case json_reject v of
        Some t \<Rightarrow> Inl (TypeError (''Object of type '' @ t @ '' is not JSON serializable''))
      | None \<Rightarrow> Inr ())"

text \<open>
  A naive \<^verbatim>\<open>datetime\<close> (no tzinfo), as \<^verbatim>\<open>datetime.utcnow()\<close> returns it:
  its calendar fields. Python only builds datetimes whose fields are in range
  (\<open>valid_datetime\<close>).
\<close>

record datetime =
  year :: nat
  month :: nat
  day :: nat
  hour :: nat
  minute :: nat
  second :: nat
  microsecond :: nat

definition is_leap :: "nat \<Rightarrow> bool" where
  "is_leap y = (if y mod 400 = 0 then True else if y mod 100 = 0 then False else y mod 4 = 0)"

definition days_in_month :: "nat \<Rightarrow> nat \<Rightarrow> nat" where
  "days_in_month y m =
     (if m = 2 then (if is_leap y then 29 else 28)
      else if m = 4 \<or> m = 6 \<or> m = 9 \<or> m = 11 then 30 else 31)"

definition valid_datetime :: "datetime \<Rightarrow> bool" where
  "valid_datetime d =
     (1 \<le> year d \<and> year d \<le> 9999 \<and> 1 \<le> month d \<and> month d \<le> 12 \<and>
      1 \<le> day d \<and> day d \<le> days_in_month (year d) (month d) \<and>
      hour d \<le> 23 \<and> minute d \<le> 59 \<and> second d \<le> 59 \<and> microsecond d \<le> 999999)"

text \<open>
  The position of a datetime on the time line in microseconds, as Python computes
  differences of datetimes (\<^verbatim>\<open>toordinal\<close>: days before the year, days before the
  month, day).
\<close>

definition days_before_year :: "nat \<Rightarrow> nat" where
  "days_before_year y = (let p = y - 1 in p * 365 + p div 4 - p div 100 + p div 400)"

definition days_before_month :: "nat \<Rightarrow> nat \<Rightarrow> nat" where
  "days_before_month y m =
     sum_list (map (days_in_month y) [1..<m])"

definition toordinal :: "datetime \<Rightarrow> nat" where
  "toordinal d = days_before_year (year d) + days_before_month (year d) (month d) + day d"

definition to_micros :: "datetime \<Rightarrow> int" where
  "to_micros d =
     (((int (toordinal d) * 24 + int (hour d)) * 60 + int (minute d)) * 60 + int (second d))
       * 1000000 + int (microsecond d)"

text \<open>
  A datetime minus a timedelta is a datetime only when the result lies between
  \<^verbatim>\<open>datetime.min\<close> and \<^verbatim>\<open>datetime.max\<close>, that is on a day with ordinal 1 to
  3652059 (a day has 86400000000 microseconds); otherwise Python raises OverflowError.
\<close>

definition in_datetime_range :: "int \<Rightarrow> bool" where
  "in_datetime_range t = (86400000000 \<le> t \<and> t < 3652060 * 86400000000)"

subsection \<open>isoformat and fromisoformat\<close>

text \<open>
  \<^verbatim>\<open>"%0kd" % n\<close> for \<open>n < 10 ^ k\<close>: exactly \<open>k\<close> decimal digits. Every field of a
  valid datetime is below the bound of its width.
\<close>

definition digit_char :: "nat \<Rightarrow> char" where
  "digit_char n = char_of (48 + n)"

fun zpad :: "nat \<Rightarrow> nat \<Rightarrow> string" where
  "zpad 0 n = []"
| "zpad (Suc k) n = zpad k (n div 10) @ [digit_char (n mod 10)]"

text \<open>\<^verbatim>\<open>datetime.isoformat()\<close> of a naive datetime: the microseconds are printed
  only when they are not zero.\<close>

definition isoformat :: "datetime \<Rightarrow> string" where
  "isoformat d =
     zpad 4 (year d) @ ''-'' @ zpad 2 (month d) @ ''-'' @ zpad 2 (day d) @ ''T'' @
     zpad 2 (hour d) @ '':'' @ zpad 2 (minute d) @ '':'' @ zpad 2 (second d) @
     (if microsecond d = 0 then [] else ''.'' @ zpad 6 (microsecond d))"

definition digit_of :: "char \<Rightarrow> nat option" where
  "digit_of c = (let v = (of_char c :: nat) in if 48 \<le> v \<and> v \<le> 57 then Some (v - 48) else None)"

fun parse_digits :: "nat \<Rightarrow> string \<Rightarrow> nat option" where
  "parse_digits acc [] = Some acc"
| "parse_digits acc (c # cs) =
     (case digit_of c of None \<Rightarrow> None | Some v \<Rightarrow> parse_digits (acc * 10 + v) cs)"

text \<open>Python's slice \<^verbatim>\<open>s[i:j]\<close> for \<open>0 \<le> i \<le> j\<close>.\<close>

definition slice :: "nat \<Rightarrow> nat \<Rightarrow> 'a list \<Rightarrow> 'a list" where
  "slice i j s = take (j - i) (drop i s)"

definition parse_field :: "nat \<Rightarrow> nat \<Rightarrow> string \<Rightarrow> nat option" where
  "parse_field i j s = (if length (slice i j s) = j - i then parse_digits 0 (slice i j s) else None)"

text \<open>
  \<^verbatim>\<open>datetime.fromisoformat\<close>, on the two shapes \<open>isoformat\<close> writes for a naive
  datetime: \<^verbatim>\<open>YYYY-MM-DDTHH:MM:SS\<close> and \<^verbatim>\<open>YYYY-MM-DDTHH:MM:SS.ffffff\<close>.
  As in Python the character at position 10 is not inspected, the separators at 4, 7, 13,
  16 and 19 are, and the fields must form a valid datetime. Python accepts further
  ISO-8601 shapes (a date alone, a UTC offset, milliseconds); the model reports any other
  shape as \<open>ValueError\<close>, which no claim below depends on.
\<close>

definition parse_isoformat :: "string \<Rightarrow> datetime option" where
  "parse_isoformat s =
     (case (parse_field 0 4 s, parse_field 5 7 s, parse_field 8 10 s,
            parse_field 11 13 s, parse_field 14 16 s, parse_field 17 19 s) of
        (Some y, Some mo, Some d, Some h, Some mi, Some se) \<Rightarrow>
          if s ! 4 = CHR ''-'' \<and> s ! 7 = CHR ''-'' \<and> s ! 13 = CHR '':'' \<and> s ! 16 = CHR '':''
          then
            (if length s = 19
             then Some \<lparr>year = y, month = mo, day = d, hour = h, minute = mi, second = se,
                        microsecond = 0\<rparr>
             else if s ! 19 = CHR ''.''
             then (case parse_field 20 26 s of
                     Some us \<Rightarrow> Some \<lparr>year = y, month = mo, day = d, hour = h, minute = mi,
                                        second = se, microsecond = us\<rparr>
                   | None \<Rightarrow> None)
             else None)
          else None
      | _ \<Rightarrow> None)"

definition fromisoformat :: "string \<Rightarrow> py_error + datetime" where
  "fromisoformat s =
     (if length s = 19 \<or> length s = 26
      then (case parse_isoformat s of
              Some d \<Rightarrow> if valid_datetime d then Inr d
                        else Inl (ValueError ''field out of range'')
            | None \<Rightarrow> Inl (ValueError (''Invalid isoformat string: '' @ s)))
      else Inl (ValueError (''Invalid isoformat string: '' @ s)))"

section \<open>The envelope: MCPMessage\<close>

text \<open>
  \<^verbatim>\<open>class MCPMessage\<close> of \<^verbatim>\<open>agents/base_agent.py\<close>. The fields \<^verbatim>\<open>id\<close>,
  \<^verbatim>\<open>timestamp\<close>, \<^verbatim>\<open>message_type\<close> and \<^verbatim>\<open>correlation_id\<close> carry the prefix
  \<open>mcp_\<close> here, since \<^verbatim>\<open>AgentMessage\<close> has fields of the same names. A target of
  \<^verbatim>\<open>None\<close> is \<open>None\<close>.
\<close>

record MCPMessage =
  mcp_id :: string
  mcp_timestamp :: datetime
  mcp_message_type :: string
  payload :: pydict
  source :: string
  target :: "string option"
  mcp_correlation_id :: string

text \<open>
  \<^verbatim>\<open>MCPMessage.__init__\<close>. The two values the constructor draws from its environment
  are arguments: \<open>uuid\<close> is \<^verbatim>\<open>str(uuid.uuid4())\<close> and \<open>now\<close> is
  \<^verbatim>\<open>datetime.utcnow()\<close>. \<^verbatim>\<open>correlation_id or self.id\<close> takes the identifier when
  the argument is \<^verbatim>\<open>None\<close> or the empty string.
\<close>

definition MCPMessage_init ::
  "string \<Rightarrow> datetime \<Rightarrow> string \<Rightarrow> pydict \<Rightarrow> string \<Rightarrow> string option \<Rightarrow> string option
     \<Rightarrow> MCPMessage" where
  "MCPMessage_init uuid now message_type pl src tgt correlation_id =
     \<lparr>mcp_id = uuid, mcp_timestamp = now, mcp_message_type = message_type, payload = pl,
      source = src, target = tgt,
      mcp_correlation_id =
        (case correlation_id of
           None \<Rightarrow> uuid
         | Some c \<Rightarrow> if c = [] then uuid else c)\<rparr>"

definition to_dict :: "MCPMessage \<Rightarrow> pydict" where
  "to_dict m =
     [(''id'', PyStr (mcp_id m)),
      (''timestamp'', PyStr (isoformat (mcp_timestamp m))),
      (''type'', PyStr (mcp_message_type m)),
      (''payload'', PyDict (payload m)),
      (''source'', PyStr (source m)),
      (''target'', (case target m of None \<Rightarrow> PyNone | Some t \<Rightarrow> PyStr t)),
      (''correlation_id'', PyStr (mcp_correlation_id m))]"

text \<open>
  \<^verbatim>\<open>data[k]\<close> raises KeyError for a missing key, \<^verbatim>\<open>data.get(k)\<close> gives
  \<^verbatim>\<open>None\<close>. The record is typed as the constructor's annotations say
  (\<^verbatim>\<open>message_type: str\<close>, \<^verbatim>\<open>payload: Dict\<close>, \<^verbatim>\<open>source: str\<close>, optional strings
  for target and correlation id); an entry of another type is reported as \<open>TypeError\<close>
  (Python would store it unchecked, except for the timestamp, where
  \<^verbatim>\<open>fromisoformat\<close> does raise TypeError).
\<close>

definition getitem :: "pydict \<Rightarrow> string \<Rightarrow> py_error + pyval" where
  "getitem d k = (case map_of d k of None \<Rightarrow> Inl (KeyError k) | Some v \<Rightarrow> Inr v)"

definition get_str :: "pydict \<Rightarrow> string \<Rightarrow> py_error + string" where
  "get_str d k =
     (case getitem d k of
        Inl e \<Rightarrow> Inl e
      | Inr (PyStr s) \<Rightarrow> Inr s
      | Inr _ \<Rightarrow> Inl (TypeError k))"

definition get_dict :: "pydict \<Rightarrow> string \<Rightarrow> py_error + pydict" where
  "get_dict d k =
     (case getitem d k of
        Inl e \<Rightarrow> Inl e
      | Inr (PyDict kvs) \<Rightarrow> Inr kvs
      | Inr _ \<Rightarrow> Inl (TypeError k))"

definition get_opt_str :: "pydict \<Rightarrow> string \<Rightarrow> py_error + string option" where
  "get_opt_str d k =
     (case map_of d k of
        None \<Rightarrow> Inr None
      | Some PyNone \<Rightarrow> Inr None
      | Some (PyStr s) \<Rightarrow> Inr (Some s)
      | Some _ \<Rightarrow> Inl (TypeError k))"

text \<open>
  \<^verbatim>\<open>MCPMessage.from_dict\<close>: the constructor runs first (with a fresh \<open>uuid\<close> and
  \<open>now\<close>), in the order of its keyword arguments, then \<^verbatim>\<open>id\<close> and
  \<^verbatim>\<open>timestamp\<close> are overwritten from the record.
\<close>

definition from_dict :: "string \<Rightarrow> datetime \<Rightarrow> pydict \<Rightarrow> py_error + MCPMessage" where
  "from_dict uuid now d =
     (case get_str d ''type'' of Inl e \<Rightarrow> Inl e | Inr ty \<Rightarrow>
     (case get_dict d ''payload'' of Inl e \<Rightarrow> Inl e | Inr pl \<Rightarrow>
     (case get_str d ''source'' of Inl e \<Rightarrow> Inl e | Inr src \<Rightarrow>
     (case get_opt_str d ''target'' of Inl e \<Rightarrow> Inl e | Inr tgt \<Rightarrow>
     (case get_opt_str d ''correlation_id'' of Inl e \<Rightarrow> Inl e | Inr corr \<Rightarrow>
     (case get_str d ''id'' of Inl e \<Rightarrow> Inl e | Inr i \<Rightarrow>
     (case get_str d ''timestamp'' of Inl e \<Rightarrow> Inl e | Inr ts \<Rightarrow>
     (case fromisoformat ts of Inl e \<Rightarrow> Inl e | Inr t \<Rightarrow>
        Inr ((MCPMessage_init uuid now ty pl src tgt corr)
               \<lparr>mcp_id := i, mcp_timestamp := t\<rparr>)))))))))"

section \<open>The agent: mailbox and message loop\<close>

text \<open>
  \<^verbatim>\<open>class BaseAgent\<close>. A handler is an async callable stored in
  \<^verbatim>\<open>message_handlers\<close>; what \<^verbatim>\<open>_process_message\<close> sees of a call is its outcome:
  it returns a reply, returns \<^verbatim>\<open>None\<close>, or raises an \<^verbatim>\<open>Exception\<close> whose
  \<^verbatim>\<open>str\<close> is the given text. (Effects a handler has on other objects are outside
  the model.)
\<close>

datatype handler_result = Returns "MCPMessage option" | Raises string

type_synonym handler = "MCPMessage \<Rightarrow> handler_result"

text \<open>
  The fields of the agent that the mailbox and the loop read or write. \<open>outbox\<close> stands
  for the standard output of \<^verbatim>\<open>BaseAgent.send_message\<close>, which prints the message:
  it lists the messages whose send returned.
\<close>

record BaseAgent =
  agent_id :: string
  message_handlers :: "string \<rightharpoonup> handler"
  message_queue :: "MCPMessage list"
  running :: bool
  tasks_processed :: nat
  errors :: nat
  outbox :: "MCPMessage list"

text \<open>
  \<^verbatim>\<open>asyncio.Queue(maxsize).put\<close>: with \<open>maxsize \<le> 0\<close> the queue is unbounded;
  otherwise a put on a full queue waits for a free slot, which is \<open>None\<close> here.
  \<^verbatim>\<open>BaseAgent.__init__\<close> builds \<^verbatim>\<open>asyncio.Queue()\<close>, whose maxsize is 0.
\<close>

definition queue_put :: "nat \<Rightarrow> 'a list \<Rightarrow> 'a \<Rightarrow> 'a list option" where
  "queue_put maxsize q x = (if 0 < maxsize \<and> maxsize \<le> length q then None else Some (q @ [x]))"

definition mailbox_maxsize :: nat where
  "mailbox_maxsize = 0"

definition receive_message :: "BaseAgent \<Rightarrow> MCPMessage \<Rightarrow> BaseAgent option" where
  "receive_message a m =
     (case queue_put mailbox_maxsize (message_queue a) m of
        None \<Rightarrow> None
      | Some q \<Rightarrow> Some (a\<lparr>message_queue := q\<rparr>))"

text \<open>
  \<^verbatim>\<open>BaseAgent.send_message\<close> prints a header line and then
  \<^verbatim>\<open>json.dumps(message.payload, indent=2)\<close>, which raises TypeError on a payload that
  is not JSON serializable.
\<close>

definition agent_send_message :: "BaseAgent \<Rightarrow> MCPMessage \<Rightarrow> py_error + BaseAgent" where
  "agent_send_message a m =
     (case json_dumps (PyDict (payload m)) of
        Inl e \<Rightarrow> Inl e
      | Inr u \<Rightarrow> Inr (a\<lparr>outbox := outbox a @ [m]\<rparr>))"

text \<open>The error reply that \<^verbatim>\<open>_process_message\<close> builds in its \<^verbatim>\<open>except\<close> branch.\<close>

definition error_response :: "string \<Rightarrow> datetime \<Rightarrow> BaseAgent \<Rightarrow> MCPMessage \<Rightarrow> string \<Rightarrow> MCPMessage" where
  "error_response uuid now a m txt =
     MCPMessage_init uuid now ''error''
       [(''error'', PyStr txt), (''original_message'', PyDict (to_dict m))]
       (agent_id a) (Some (source m)) (Some (mcp_correlation_id m))"

text \<open>
  \<^verbatim>\<open>BaseAgent._process_message\<close>. The \<^verbatim>\<open>try\<close> covers the handler call and the
  send of its reply; an exception raised by the send of the error reply, inside the
  \<^verbatim>\<open>except\<close> branch, leaves the function.
\<close>

definition process_message ::
  "string \<Rightarrow> datetime \<Rightarrow> BaseAgent \<Rightarrow> MCPMessage \<Rightarrow> py_error + BaseAgent" where
  "process_message uuid now a m =
     (case message_handlers a (mcp_message_type m) of
        None \<Rightarrow> Inr a
      | Some h \<Rightarrow>
          (case h m of
             Returns None \<Rightarrow> Inr a
           | Returns (Some response) \<Rightarrow>
               (case agent_send_message a response of
                  Inr a' \<Rightarrow> Inr a'
                | Inl e \<Rightarrow> agent_send_message a (error_response uuid now a m (str_of_error e)))
           | Raises txt \<Rightarrow> agent_send_message a (error_response uuid now a m txt)))"

text \<open>
  One pass through the body of \<^verbatim>\<open>while self.running\<close> in
  \<^verbatim>\<open>BaseAgent._message_loop\<close>: an empty mailbox ends in
  \<^verbatim>\<open>asyncio.TimeoutError\<close> and \<^verbatim>\<open>continue\<close>; otherwise the head of the queue
  is taken and processed. \<open>uuid\<close> and \<open>now\<close> are what the pass draws for an error
  reply.
\<close>

definition message_loop_body :: "string \<Rightarrow> datetime \<Rightarrow> BaseAgent \<Rightarrow> BaseAgent" where
  "message_loop_body uuid now a =
     (case message_queue a of
        [] \<Rightarrow> a
      | m # q \<Rightarrow>
          (case process_message uuid now (a\<lparr>message_queue := q\<rparr>) m of
             Inr a' \<Rightarrow> a'\<lparr>tasks_processed := tasks_processed a' + 1\<rparr>
           | Inl e \<Rightarrow> a\<lparr>message_queue := q, errors := errors a + 1\<rparr>))"

text \<open>
  The loop itself never returns while \<^verbatim>\<open>running\<close> stays true; \<open>message_loop\<close>
  runs the passes for which the list supplies the environment, and stops early when the
  flag is false.
\<close>

fun message_loop :: "(string \<times> datetime) list \<Rightarrow> BaseAgent \<Rightarrow> BaseAgent" where
  "message_loop [] a = a"
| "message_loop (env # envs) a =
     (if running a then message_loop envs (message_loop_body (fst env) (snd env) a) else a)"

section \<open>The bus envelope: AgentMessage\<close>

datatype MessageType =
    LOG_ANALYSIS | INCIDENT_DETECTED | ROOT_CAUSE_REQUEST | REMEDIATION_REQUEST
  | ANALYSIS_RESULT | AGENT_STATUS | HEARTBEAT | ERROR

text \<open>
  A timestamp handed to \<^verbatim>\<open>AgentMessage\<close> is naive (as \<^verbatim>\<open>utcnow()\<close> gives it) or
  carries a tzinfo. Python refuses to order a naive against an aware datetime.
\<close>

datatype py_datetime = Naive datetime | Aware datetime

text \<open>\<^verbatim>\<open>class AgentMessage\<close>; its field \<^verbatim>\<open>id\<close> is \<open>msg_id\<close>.\<close>

record AgentMessage =
  msg_id :: string
  sender_id :: string
  recipient_id :: string
  message_type :: MessageType
  data :: pydict
  timestamp :: py_datetime
  correlation_id :: "string option"

text \<open>
  \<^verbatim>\<open>AgentMessage.__init__\<close> (keyword arguments only): a missing or falsy \<^verbatim>\<open>id\<close> becomes a fresh
  uuid, a missing \<^verbatim>\<open>timestamp\<close> becomes \<^verbatim>\<open>utcnow()\<close> (a datetime is never falsy);
  the correlation id is stored as given, \<^verbatim>\<open>None\<close> by default.
\<close>

definition AgentMessage_init ::
  "string \<Rightarrow> datetime \<Rightarrow> string option \<Rightarrow> string \<Rightarrow> string \<Rightarrow> MessageType \<Rightarrow> pydict
     \<Rightarrow> py_datetime option \<Rightarrow> string option \<Rightarrow> AgentMessage" where
  "AgentMessage_init uuid now id_arg sender recipient mt dat ts corr =
     \<lparr>msg_id = (case id_arg of None \<Rightarrow> uuid | Some i \<Rightarrow> if i = [] then uuid else i),
      sender_id = sender, recipient_id = recipient, message_type = mt, data = dat,
      timestamp = (case ts of None \<Rightarrow> Naive now | Some t \<Rightarrow> t),
      correlation_id = corr\<rparr>"

section \<open>The message bus\<close>

text \<open>
  \<^verbatim>\<open>class MessageBus\<close> of \<^verbatim>\<open>messaging/message_bus.py\<close>. An agent object is known
  to the bus only as a reference (\<open>agent_ref\<close>, a name for the object). A synchronous
  handler is an async callable; the bus sees whether the call returns (\<open>True\<close>) or
  raises an \<^verbatim>\<open>Exception\<close> (\<open>False\<close>). The dict \<^verbatim>\<open>stats\<close> is the record
  \<open>bus_stats\<close>; the fields \<^verbatim>\<open>message_handlers\<close> and \<^verbatim>\<open>running\<close> carry the prefix
  \<open>bus_\<close>. \<^verbatim>\<open>max_queue_size\<close> is taken as a natural number (a negative bound makes
  \<^verbatim>\<open>deque\<close> raise ValueError when the first mailbox is created); \<open>message_ttl\<close>
  is the timedelta in microseconds (\<^verbatim>\<open>timedelta(minutes=n)\<close> exists for every
  \<open>n\<close> of up to 999999999 days; beyond that the constructor of the bus raises and
  there is no bus).
\<close>

type_synonym agent_ref = string

type_synonym sync_handler = "AgentMessage \<Rightarrow> bool"

record bus_stats =
  messages_sent :: nat
  messages_delivered :: nat
  messages_failed :: nat
  messages_dropped :: nat

record MessageBus =
  agents :: "string \<rightharpoonup> agent_ref"
  message_queues :: "string \<rightharpoonup> AgentMessage list"
  max_queue_size :: nat
  subscribers :: "MessageType \<rightharpoonup> string list"
  bus_message_handlers :: "string \<rightharpoonup> (MessageType \<rightharpoonup> sync_handler)"
  message_history :: "AgentMessage list"
  message_ttl :: int
  bus_running :: bool
  stats :: bus_stats

definition MessageBus_init :: "nat \<Rightarrow> int \<Rightarrow> MessageBus" where
  "MessageBus_init max_size ttl_minutes =
     \<lparr>agents = Map.empty, message_queues = Map.empty, max_queue_size = max_size,
      subscribers = Map.empty, bus_message_handlers = Map.empty, message_history = [],
      message_ttl = ttl_minutes * 60000000, bus_running = False,
      stats = \<lparr>messages_sent = 0, messages_delivered = 0, messages_failed = 0,
               messages_dropped = 0\<rparr>\<rparr>"

text \<open>
  \<^verbatim>\<open>deque(maxlen=n).append(x)\<close>: the element is added on the right and, when the
  deque is then longer than \<open>n\<close>, one element is dropped on the left.
\<close>

definition deque_append :: "nat \<Rightarrow> 'a list \<Rightarrow> 'a \<Rightarrow> 'a list" where
  "deque_append maxlen q x = (if maxlen < length (q @ [x]) then tl (q @ [x]) else q @ [x])"

text \<open>Reading a \<^verbatim>\<open>defaultdict\<close> entry that a write will create: the default.\<close>

definition queue_of :: "MessageBus \<Rightarrow> string \<Rightarrow> AgentMessage list" where
  "queue_of b aid = (case message_queues b aid of None \<Rightarrow> [] | Some q \<Rightarrow> q)"

definition subscribers_of :: "MessageBus \<Rightarrow> MessageType \<Rightarrow> string list" where
  "subscribers_of b mt = (case subscribers b mt of None \<Rightarrow> [] | Some l \<Rightarrow> l)"

definition register_agent :: "MessageBus \<Rightarrow> string \<Rightarrow> agent_ref \<Rightarrow> MessageBus" where
  "register_agent b aid agent = b\<lparr>agents := (agents b)(aid \<mapsto> agent)\<rparr>"

text \<open>
  \<^verbatim>\<open>MessageBus.unregister_agent\<close>: \<^verbatim>\<open>list.remove\<close> takes out the first occurrence
  of the id in each subscriber list that contains it. \<^verbatim>\<open>message_handlers\<close> is not
  touched.
\<close>

definition unregister_agent :: "MessageBus \<Rightarrow> string \<Rightarrow> MessageBus" where
  "unregister_agent b aid =
     (if aid \<in> dom (agents b)
      then b\<lparr>agents := (agents b)(aid := None),
             message_queues := (message_queues b)(aid := None),
             subscribers := (\<lambda>mt. map_option (remove1 aid) (subscribers b mt))\<rparr>
      else b)"

definition subscribe ::
  "MessageBus \<Rightarrow> string \<Rightarrow> MessageType \<Rightarrow> sync_handler option \<Rightarrow> MessageBus" where
  "subscribe b aid mt h =
     (let subs = subscribers_of b mt;
          b1 = b\<lparr>subscribers :=
                   (subscribers b)(mt \<mapsto> (if aid \<in> set subs then subs else subs @ [aid]))\<rparr>
      in case h of
           None \<Rightarrow> b1
         | Some f \<Rightarrow>
             b1\<lparr>bus_message_handlers :=
                  (bus_message_handlers b1)
                    (aid \<mapsto> (case bus_message_handlers b1 aid of
                                 None \<Rightarrow> Map.empty(mt \<mapsto> f)
                               | Some tbl \<Rightarrow> tbl(mt \<mapsto> f)))\<rparr>)"

definition unsubscribe :: "MessageBus \<Rightarrow> string \<Rightarrow> MessageType \<Rightarrow> MessageBus" where
  "unsubscribe b aid mt =
     (let b1 = b\<lparr>subscribers := (subscribers b)(mt \<mapsto> remove1 aid (subscribers_of b mt))\<rparr>
      in case bus_message_handlers b1 aid of
           None \<Rightarrow> b1
         | Some tbl \<Rightarrow>
             b1\<lparr>bus_message_handlers := (bus_message_handlers b1)(aid \<mapsto> tbl(mt := None))\<rparr>)"

text \<open>
  \<^verbatim>\<open>MessageBus._cleanup_old_messages\<close>. The cut-off
  \<^verbatim>\<open>datetime.utcnow() - self.message_ttl\<close> is computed first and raises
  OverflowError when it leaves the range of datetimes. The comprehension then compares
  each timestamp with the naive cut-off in order and raises TypeError at the first aware
  timestamp. In both cases the history is left as it was.
\<close>

fun keep_newer :: "int \<Rightarrow> AgentMessage list \<Rightarrow> py_error + AgentMessage list" where
  "keep_newer cutoff [] = Inr []"
| "keep_newer cutoff (m # ms) =
     (case timestamp m of
        Aware d \<Rightarrow> Inl (TypeError ''offset-naive and offset-aware datetimes'')
      | Naive d \<Rightarrow>
          (case keep_newer cutoff ms of
             Inl e \<Rightarrow> Inl e
           | Inr kept \<Rightarrow> Inr (if cutoff < to_micros d then m # kept else kept)))"

definition cleanup_old_messages :: "datetime \<Rightarrow> MessageBus \<Rightarrow> py_error + MessageBus" where
  "cleanup_old_messages now b =
     (if in_datetime_range (to_micros now - message_ttl b)
      then (case keep_newer (to_micros now - message_ttl b) (message_history b) of
              Inl e \<Rightarrow> Inl e
            | Inr kept \<Rightarrow> Inr (b\<lparr>message_history := kept\<rparr>))
      else Inl (OverflowError ''date value out of range''))"

definition count_failed :: "MessageBus \<Rightarrow> MessageBus" where
  "count_failed b = b\<lparr>stats := (stats b)\<lparr>messages_failed := messages_failed (stats b) + 1\<rparr>\<rparr>"

definition count_delivered :: "MessageBus \<Rightarrow> MessageBus" where
  "count_delivered b =
     b\<lparr>stats := (stats b)\<lparr>messages_delivered := messages_delivered (stats b) + 1\<rparr>\<rparr>"

text \<open>
  \<^verbatim>\<open>MessageBus._send_to_recipient\<close>. The message is appended to the recipient's
  deque first; a synchronous handler for the kind is then called, and whether it returns
  or raises, the send is counted as delivered.
\<close>

definition send_to_recipient :: "MessageBus \<Rightarrow> AgentMessage \<Rightarrow> bool \<times> MessageBus" where
  "send_to_recipient b m =
     (let rid = recipient_id m in
      if rid \<notin> dom (agents b) then (False, count_failed b)
      else
        (let b1 = b\<lparr>message_queues :=
                      (message_queues b)
                        (rid \<mapsto> deque_append (max_queue_size b) (queue_of b rid) m)\<rparr>
         in case bus_message_handlers b1 rid of
              None \<Rightarrow> (True, count_delivered b1)
            | Some tbl \<Rightarrow>
                (case tbl (message_type m) of
                   None \<Rightarrow> (True, count_delivered b1)
                 | Some h \<Rightarrow>
                     if h m then (True, count_delivered b1)
                     else (True, count_delivered b1))))"

text \<open>
  The copy \<^verbatim>\<open>_broadcast_message\<close> builds for one subscriber: the constructor is
  given sender, recipient, kind, data and timestamp, and nothing else.
\<close>

definition recipient_copy :: "string \<Rightarrow> datetime \<Rightarrow> AgentMessage \<Rightarrow> string \<Rightarrow> AgentMessage" where
  "recipient_copy uuid now m aid =
     AgentMessage_init uuid now None (sender_id m) aid (message_type m)
       (if data m = [] then [] else data m) (Some (timestamp m)) None"

text \<open>
  The loop of \<^verbatim>\<open>_broadcast_message\<close> over the subscriber list; \<open>ids k\<close> is the
  uuid drawn for the \<open>k\<close>-th copy, \<open>n\<close> is \<^verbatim>\<open>success_count\<close>.
\<close>

fun broadcast_loop ::
  "(nat \<Rightarrow> string) \<Rightarrow> datetime \<Rightarrow> AgentMessage \<Rightarrow> nat \<Rightarrow> string list \<Rightarrow> nat \<Rightarrow> MessageBus
     \<Rightarrow> nat \<times> MessageBus" where
  "broadcast_loop ids now m k [] n b = (n, b)"
| "broadcast_loop ids now m k (aid # rest) n b =
     (case send_to_recipient b (recipient_copy (ids k) now m aid) of
        (ok, b') \<Rightarrow> broadcast_loop ids now m (Suc k) rest (if ok then n + 1 else n) b')"

definition broadcast_message ::
  "(nat \<Rightarrow> string) \<Rightarrow> datetime \<Rightarrow> MessageBus \<Rightarrow> AgentMessage \<Rightarrow> bool \<times> MessageBus" where
  "broadcast_message ids now b m =
     (let subs = subscribers_of b (message_type m) in
      if subs = [] then (True, b)
      else (case broadcast_loop ids now m 0 subs 0 b of
              (n, b') \<Rightarrow> (n = length subs, b')))"

definition is_broadcast :: "AgentMessage \<Rightarrow> bool" where
  "is_broadcast m = (recipient_id m = ''broadcast'' \<or> recipient_id m = ''*'')"

text \<open>
  \<^verbatim>\<open>MessageBus.send_message\<close>. \<open>now\<close> is the clock reading of the call. An
  exception inside the \<^verbatim>\<open>try\<close> (here: OverflowError or TypeError from the clean-up of
  the history) is caught,
  counted as failed, and the result is \<^verbatim>\<open>False\<close>.
\<close>

definition send_message ::
  "(nat \<Rightarrow> string) \<Rightarrow> datetime \<Rightarrow> MessageBus \<Rightarrow> AgentMessage \<Rightarrow> bool \<times> MessageBus" where
  "send_message ids now b m =
     (let b1 = b\<lparr>stats := (stats b)\<lparr>messages_sent := messages_sent (stats b) + 1\<rparr>,
                 message_history := message_history b @ [m]\<rparr>
      in case cleanup_old_messages now b1 of
           Inl e \<Rightarrow> (False, count_failed b1)
         | Inr b2 \<Rightarrow>
             if is_broadcast m then broadcast_message ids now b2 m
             else send_to_recipient b2 m)"


section \<open>The agent registry\<close>















section \<open>Observations used in the statements\<close>

text \<open>
  The definitions of this section are not code of the repository: they name what a
  statement below observes of a run.

  \<open>dispatch_raises a m\<close>: the dispatch of \<open>m\<close> by agent \<open>a\<close> ends in an exception
  that leaves \<^verbatim>\<open>_process_message\<close>. That is the case when a handler is registered
  for the kind, the handler raises or returns a reply that cannot be sent, and the error
  reply cannot be sent either, because the payload of \<open>m\<close>, which the error reply
  embeds, is not JSON serializable.
\<close>

definition dispatch_raises :: "BaseAgent \<Rightarrow> MCPMessage \<Rightarrow> bool" where
  "dispatch_raises a m =
     (case message_handlers a (mcp_message_type m) of
        None \<Rightarrow> False
      | Some h \<Rightarrow>
          (case h m of
             Returns None \<Rightarrow> False
           | Returns (Some response) \<Rightarrow>
               json_reject_items (payload response) \<noteq> None \<and> json_reject_items (payload m) \<noteq> None
           | Raises txt \<Rightarrow> json_reject_items (payload m) \<noteq> None))"

text \<open>A caller handing a sequence of messages to \<open>receive_message\<close>, with no pops in
  between.\<close>

fun receive_all :: "BaseAgent \<Rightarrow> MCPMessage list \<Rightarrow> BaseAgent option" where
  "receive_all a [] = Some a"
| "receive_all a (m # ms) =
     (case receive_message a m of None \<Rightarrow> None | Some a' \<Rightarrow> receive_all a' ms)"

text \<open>
  \<open>accounted b\<close> is the sum of the delivered and the failed counter.
  \<open>cleanup_returns now b m\<close>: the clean-up of the history that \<open>send_message b m\<close>
  runs at clock reading \<open>now\<close> returns (the cut-off is a datetime, and no timestamp in
  the history, \<open>m\<close> included, is aware). \<open>fanout now b m\<close> is the number of recipients
  that the call is expected to count: when the clean-up returns, one for a point-to-point
  send and one per subscriber of the kind for a broadcast; when it raises, one (the call
  counts itself as failed and routes nothing). \<open>send_all\<close> is a caller issuing a
  sequence of sends, each with its own environment.
\<close>

definition is_naive :: "AgentMessage \<Rightarrow> bool" where
  "is_naive m = (case timestamp m of Naive d \<Rightarrow> True | Aware d \<Rightarrow> False)"

definition cleanup_returns :: "datetime \<Rightarrow> MessageBus \<Rightarrow> AgentMessage \<Rightarrow> bool" where
  "cleanup_returns now b m =
     (in_datetime_range (to_micros now - message_ttl b)
      \<and> list_all is_naive (message_history b @ [m]))"







section \<open>Example values\<close>

definition example_time :: datetime where
  "example_time = \<lparr>year = 2024, month = 3, day = 9, hour = 1, minute = 2, second = 3, microsecond = 45\<rparr>"

definition example_ids :: "nat \<Rightarrow> string" where
  "example_ids k = ''copy-'' @ zpad 2 k"

definition example_bus :: MessageBus where
  "example_bus =
     subscribe (register_agent (MessageBus_init 1000 60) ''analyzer-1'' ''analyzer'')
       ''analyzer-1'' LOG_ANALYSIS (Some (\<lambda>m. True))"

definition example_request :: AgentMessage where
  "example_request =
     AgentMessage_init ''m-1'' example_time None ''ingester-1'' ''broadcast'' LOG_ANALYSIS
       [(''entries'', PyInt 3)] None (Some ''corr-7'')"

definition example_fanout_bus :: MessageBus where
  "example_fanout_bus =
     subscribe
       (subscribe
          (register_agent (register_agent (MessageBus_init 1000 60) ''analyzer-1'' ''analyzer'')
             ''analyzer-2'' ''analyzer'')
          ''analyzer-1'' LOG_ANALYSIS None)
       ''analyzer-2'' LOG_ANALYSIS None"

definition example_agent :: BaseAgent where
  "example_agent =
     \<lparr>agent_id = ''analyzer-1'',
      message_handlers = [''boom'' \<mapsto> (\<lambda>m. Raises ''kaput''), ''quiet'' \<mapsto> (\<lambda>m. Returns None)],
      message_queue = [], running = True, tasks_processed = 0, errors = 0, outbox = []\<rparr>"

definition example_boom :: MCPMessage where
  "example_boom =
     MCPMessage_init ''req-1'' example_time ''boom'' [(''n'', PyInt 1)] ''client-1''
       (Some ''analyzer-1'') None"

definition example_quiet :: MCPMessage where
  "example_quiet =
     MCPMessage_init ''req-2'' example_time ''quiet'' [] ''client-2'' (Some ''analyzer-1'') None"

definition example_opaque :: MCPMessage where
  "example_opaque =
     MCPMessage_init ''req-3'' example_time ''boom'' [(''seen_at'', PyObject ''datetime'')]
       ''client-1'' (Some ''analyzer-1'') None"



definition example_note :: "string \<Rightarrow> AgentMessage" where
  "example_note uid =
     AgentMessage_init uid example_time None ''ingester-1'' ''analyzer-1'' HEARTBEAT [] None None"

definition example_small_bus :: MessageBus where
  "example_small_bus = register_agent (MessageBus_init 2 60) ''analyzer-1'' ''analyzer''"

definition example_longlived_bus :: MessageBus where
  "example_longlived_bus =
     subscribe
       (subscribe
          (register_agent (register_agent (MessageBus_init 1000 1100000000) ''analyzer-1'' ''analyzer'')
             ''analyzer-2'' ''analyzer'')
          ''analyzer-1'' LOG_ANALYSIS None)
       ''analyzer-2'' LOG_ANALYSIS None"

section \<open>Properties of the envelope\<close>

lemma digit_of_digit_char: "n < 10 \<Longrightarrow> digit_of (digit_char n) = Some n"
  by (simp add: digit_of_def digit_char_def)

lemma length_zpad: "length (zpad k n) = k"
  by (induction k arbitrary: n) auto

lemma parse_digits_append:
  "parse_digits acc (xs @ ys) = (case parse_digits acc xs of None \<Rightarrow> None | Some a \<Rightarrow> parse_digits a ys)"
  by (induction xs arbitrary: acc) (auto split: option.splits)

lemma parse_digits_zpad: "n < 10 ^ k \<Longrightarrow> parse_digits acc (zpad k n) = Some (acc * 10 ^ k + n)"
proof (induction k arbitrary: n acc)
  case 0 then show ?case by simp
next
  case (Suc k)
  have "n div 10 < 10 ^ k" using Suc.prems by (simp add: less_mult_imp_div_less)
  then have "parse_digits acc (zpad k (n div 10)) = Some (acc * 10 ^ k + n div 10)"
    by (rule Suc.IH)
  then show ?case
    by (simp add: parse_digits_append digit_of_digit_char algebra_simps)
qed

lemma parse_field_at:
  assumes "n < 10 ^ k" and "slice i (i + k) s = zpad k n"
  shows "parse_field i (i + k) s = Some n"
  using assms by (simp add: parse_field_def length_zpad parse_digits_zpad)

lemma length_isoformat:
  "length (isoformat d) = (if microsecond d = 0 then 19 else 26)"
  by (simp add: isoformat_def length_zpad)

lemma valid_bounds:
  assumes "valid_datetime d"
  shows "year d < 10 ^ 4" "month d < 10 ^ 2" "day d < 10 ^ 2" "hour d < 10 ^ 2"
    "minute d < 10 ^ 2" "second d < 10 ^ 2" "microsecond d < 10 ^ 6"
  using assms by (auto simp: valid_datetime_def days_in_month_def split: if_splits)

lemma iso_fields:
  assumes "valid_datetime d"
  shows "parse_field 0 4 (isoformat d) = Some (year d)"
    and "parse_field 5 7 (isoformat d) = Some (month d)"
    and "parse_field 8 10 (isoformat d) = Some (day d)"
    and "parse_field 11 13 (isoformat d) = Some (hour d)"
    and "parse_field 14 16 (isoformat d) = Some (minute d)"
    and "parse_field 17 19 (isoformat d) = Some (second d)"
proof -
  note b = valid_bounds[OF assms]
  show "parse_field 0 4 (isoformat d) = Some (year d)"
    using parse_field_at[OF b(1), of 0 "isoformat d"]
    by (simp add: isoformat_def slice_def length_zpad)
  show "parse_field 5 7 (isoformat d) = Some (month d)"
    using parse_field_at[OF b(2), of 5 "isoformat d"]
    by (simp add: isoformat_def slice_def length_zpad)
  show "parse_field 8 10 (isoformat d) = Some (day d)"
    using parse_field_at[OF b(3), of 8 "isoformat d"]
    by (simp add: isoformat_def slice_def length_zpad)
  show "parse_field 11 13 (isoformat d) = Some (hour d)"
    using parse_field_at[OF b(4), of 11 "isoformat d"]
    by (simp add: isoformat_def slice_def length_zpad)
  show "parse_field 14 16 (isoformat d) = Some (minute d)"
    using parse_field_at[OF b(5), of 14 "isoformat d"]
    by (simp add: isoformat_def slice_def length_zpad)
  show "parse_field 17 19 (isoformat d) = Some (second d)"
    using parse_field_at[OF b(6), of 17 "isoformat d"]
    by (simp add: isoformat_def slice_def length_zpad)
qed

lemma iso_micro:
  assumes "valid_datetime d" "microsecond d \<noteq> 0"
  shows "parse_field 20 26 (isoformat d) = Some (microsecond d)"
  using parse_field_at[OF valid_bounds(7)[OF assms(1)], of 20 "isoformat d"] assms(2)
  by (simp add: isoformat_def slice_def length_zpad)

lemma iso_separators:
  "isoformat d ! 4 = CHR ''-''" "isoformat d ! 7 = CHR ''-''"
  "isoformat d ! 13 = CHR '':''" "isoformat d ! 16 = CHR '':''"
  "microsecond d \<noteq> 0 \<Longrightarrow> isoformat d ! 19 = CHR ''.''"
  by (simp_all add: isoformat_def nth_append length_zpad)

lemma parse_isoformat_isoformat:
  assumes "valid_datetime d"
  shows "parse_isoformat (isoformat d) = Some d"
  by (simp add: parse_isoformat_def iso_fields[OF assms] iso_micro[OF assms] iso_separators
      length_isoformat)

lemma fromisoformat_isoformat:
  "valid_datetime d \<Longrightarrow> fromisoformat (isoformat d) = Inr d"
  by (simp add: fromisoformat_def parse_isoformat_isoformat length_isoformat)

lemma valid_example_time: "valid_datetime example_time"
  by (simp add: valid_datetime_def example_time_def days_in_month_def)

lemma from_dict_to_dict:
  assumes "valid_datetime (mcp_timestamp m)" and "mcp_correlation_id m \<noteq> []"
  shows "from_dict uuid now (to_dict m) = Inr m"
  using assms
  by (cases "target m")
     (simp_all add: from_dict_def to_dict_def get_str_def get_dict_def get_opt_str_def
        getitem_def MCPMessage_init_def fromisoformat_isoformat)

text \<open>
  Claim C8. For every constructed message \<open>m\<close> (the uuid drawn by the constructor is a
  non-empty string, its clock reading a valid datetime), \<open>from_dict (to_dict m)\<close>
  returns a message equal to \<open>m\<close> in every field: id, kind, payload, sender, recipient,
  correlation id and timestamp. The record is flat, with the keys id, timestamp, type,
  payload, source, target, correlation_id in this order, and its timestamp entry is the
  ISO-8601 text \<open>isoformat\<close> writes, which \<open>fromisoformat\<close> reads back exactly.
\<close>

theorem mcp_roundtrip:
  assumes "uuid \<noteq> []" and "valid_datetime now"
  shows "from_dict uuid' now' (to_dict (MCPMessage_init uuid now ty pl src tgt corr))
           = Inr (MCPMessage_init uuid now ty pl src tgt corr)
       \<and> map fst (to_dict (MCPMessage_init uuid now ty pl src tgt corr))
           = [''id'', ''timestamp'', ''type'', ''payload'', ''source'', ''target'', ''correlation_id'']
       \<and> map_of (to_dict (MCPMessage_init uuid now ty pl src tgt corr)) ''timestamp''
           = Some (PyStr (isoformat now))
       \<and> fromisoformat (isoformat now) = Inr now"
proof -
  let ?m = "MCPMessage_init uuid now ty pl src tgt corr"
  have "mcp_correlation_id ?m \<noteq> []"
    using assms(1) by (simp add: MCPMessage_init_def split: option.splits)
  moreover have "valid_datetime (mcp_timestamp ?m)"
    using assms(2) by (simp add: MCPMessage_init_def)
  ultimately have "from_dict uuid' now' (to_dict ?m) = Inr ?m"
    by (simp add: from_dict_to_dict)
  moreover have "map fst (to_dict ?m)
      = [''id'', ''timestamp'', ''type'', ''payload'', ''source'', ''target'', ''correlation_id'']"
    by (simp add: to_dict_def)
  moreover have "map_of (to_dict ?m) ''timestamp'' = Some (PyStr (isoformat now))"
    by (simp add: to_dict_def MCPMessage_init_def)
  ultimately show ?thesis
    using assms(2) by (simp add: fromisoformat_isoformat)
qed

theorem mcp_roundtrip_witness:
  "''req-1'' \<noteq> [] \<and> valid_datetime example_time
   \<and> from_dict ''other'' example_time
        (to_dict (MCPMessage_init ''req-1'' example_time ''ping'' [(''n'', PyInt 1)] ''a'' (Some ''b'') None))
      = Inr (MCPMessage_init ''req-1'' example_time ''ping'' [(''n'', PyInt 1)] ''a'' (Some ''b'') None)"
  using mcp_roundtrip[of "''req-1''" example_time "''other''" example_time "''ping''"
      "[(''n'', PyInt 1)]" "''a''" "Some ''b''" None] valid_example_time
  by simp

text \<open>
  Claim C5, as amended. An \<^verbatim>\<open>MCPMessage\<close> constructed without a correlation id has
  its own identifier as correlation id, and a reply constructed with the correlation id
  of such a request carries the request's identifier (the request's uuid is a non-empty
  string). An \<^verbatim>\<open>AgentMessage\<close> constructed without a correlation id has none: the
  field stays \<^verbatim>\<open>None\<close>.
\<close>

theorem correlation_default:
  "mcp_correlation_id (MCPMessage_init uuid now ty pl src tgt None)
     = mcp_id (MCPMessage_init uuid now ty pl src tgt None)
   \<and> (uuid \<noteq> [] \<longrightarrow>
        mcp_correlation_id
          (MCPMessage_init uuid2 now2 ty2 pl2 src2 tgt2
             (Some (mcp_correlation_id (MCPMessage_init uuid now ty pl src tgt None))))
        = mcp_id (MCPMessage_init uuid now ty pl src tgt None))
   \<and> correlation_id (AgentMessage_init uuid now id_arg sender recipient mt dat ts None) = None"
  by (simp add: MCPMessage_init_def AgentMessage_init_def)

theorem correlation_default_witness:
  "''req-1'' \<noteq> []
   \<and> mcp_correlation_id
       (MCPMessage_init ''rep-2'' example_time ''pong'' [] ''b'' (Some ''a'')
          (Some (mcp_correlation_id (MCPMessage_init ''req-1'' example_time ''ping'' [] ''a'' (Some ''b'') None))))
     = ''req-1''"
  using correlation_default[of "''req-1''" example_time "''ping''" "[]" "''a''" "Some ''b''"
      "''rep-2''" example_time "''pong''" "[]" "''b''" "Some ''a''"]
  by (simp add: MCPMessage_init_def)

text \<open>
  Claim C5 as stated fails for the bus envelope: an \<^verbatim>\<open>AgentMessage\<close> constructed
  without a correlation id does not have its identifier as correlation id.
\<close>

theorem agent_message_correlation_counterexample:
  "correlation_id (AgentMessage_init ''u-1'' example_time None ''a'' ''b'' HEARTBEAT [] None None)
     \<noteq> Some (msg_id (AgentMessage_init ''u-1'' example_time None ''a'' ''b'' HEARTBEAT [] None None))"
  by (simp add: AgentMessage_init_def)

section \<open>Properties of the agent loop\<close>

lemma json_reject_error_response:
  "json_reject_items (payload (error_response uuid now a m e)) = json_reject_items (payload m)"
  by (simp add: error_response_def MCPMessage_init_def to_dict_def split: option.splits)

lemma agent_send_message_cases:
  "agent_send_message a m =
     (case json_reject_items (payload m) of
        None \<Rightarrow> Inr (a\<lparr>outbox := outbox a @ [m]\<rparr>)
      | Some t \<Rightarrow> Inl (TypeError (''Object of type '' @ t @ '' is not JSON serializable'')))"
  by (simp add: agent_send_message_def json_dumps_def split: option.splits)

lemma send_error_response:
  "agent_send_message a (error_response uuid now a m e) =
     (case json_reject_items (payload m) of
        None \<Rightarrow> Inr (a\<lparr>outbox := outbox a @ [error_response uuid now a m e]\<rparr>)
      | Some t \<Rightarrow> Inl (TypeError (''Object of type '' @ t @ '' is not JSON serializable'')))"
  by (simp add: agent_send_message_cases json_reject_error_response)

lemma process_message_raises_iff:
  "(\<exists>e. process_message uuid now a m = Inl e) = dispatch_raises a m"
  by (auto simp: process_message_def dispatch_raises_def json_reject_error_response
        agent_send_message_cases
      split: option.splits handler_result.splits sum.splits)

lemma process_message_frame:
  assumes "process_message uuid now a m = Inr a'"
  shows "tasks_processed a' = tasks_processed a" "errors a' = errors a"
    "message_queue a' = message_queue a" "running a' = running a"
    "message_handlers a' = message_handlers a" "agent_id a' = agent_id a"
  using assms
  by (auto simp: process_message_def json_reject_error_response agent_send_message_cases
      split: option.splits handler_result.splits sum.splits)

text \<open>
  Claim C10, as amended. For a running agent and the message \<open>m\<close> at the head of its
  mailbox, one pass of the loop pops \<open>m\<close> and raises \<open>tasks_processed\<close> by exactly 1
  whenever the dispatch returns: no handler is registered for the kind, the handler
  returned (with or without a reply), or the handler raised and the error reply was sent.
  When the dispatch itself raises (\<open>dispatch_raises\<close>: the error reply cannot be sent),
  \<open>tasks_processed\<close> is unchanged and \<open>errors\<close> grows by 1 instead. In particular the
  counter grows by 1 for every message whose payload is JSON serializable.
\<close>

theorem tasks_processed_counts_dispatches:
  assumes "running a" and "message_queue a = m # q"
  shows "tasks_processed (message_loop [(uuid, now)] a)
           = (if dispatch_raises a m then tasks_processed a else tasks_processed a + 1)
       \<and> errors (message_loop [(uuid, now)] a)
           = (if dispatch_raises a m then errors a + 1 else errors a)
       \<and> message_queue (message_loop [(uuid, now)] a) = q
       \<and> running (message_loop [(uuid, now)] a)
       \<and> (json_reject_items (payload m) = None \<longrightarrow>
            tasks_processed (message_loop [(uuid, now)] a) = tasks_processed a + 1)"
proof -
  let ?a1 = "a\<lparr>message_queue := q\<rparr>"
  have dr: "dispatch_raises ?a1 m = dispatch_raises a m"
    by (simp add: dispatch_raises_def)
  have nr: "json_reject_items (payload m) = None \<Longrightarrow> \<not> dispatch_raises a m"
    by (auto simp: dispatch_raises_def split: option.splits handler_result.splits)
  show ?thesis
  proof (cases "process_message uuid now ?a1 m")
    case (Inl e)
    then have "dispatch_raises a m"
      using process_message_raises_iff[of uuid now ?a1 m] dr by auto
    then show ?thesis
      using Inl assms nr by (auto simp: message_loop_body_def)
  next
    case (Inr a')
    then have "\<not> dispatch_raises a m"
      using process_message_raises_iff[of uuid now ?a1 m] dr by auto
    then show ?thesis
      using Inr assms process_message_frame[OF Inr] by (simp add: message_loop_body_def)
  qed
qed

theorem tasks_processed_counts_dispatches_witness:
  "running (example_agent\<lparr>message_queue := [example_boom, example_quiet]\<rparr>)
   \<and> tasks_processed
       (message_loop [(''err-1'', example_time)]
          (example_agent\<lparr>message_queue := [example_boom, example_quiet]\<rparr>)) = 1
   \<and> message_queue
       (message_loop [(''err-1'', example_time)]
          (example_agent\<lparr>message_queue := [example_boom, example_quiet]\<rparr>)) = [example_quiet]"
  using tasks_processed_counts_dispatches[of
      "example_agent\<lparr>message_queue := [example_boom, example_quiet]\<rparr>"
      example_boom "[example_quiet]" "''err-1''" example_time]
  by (simp add: example_agent_def example_boom_def dispatch_raises_def MCPMessage_init_def)

text \<open>
  Claim C10 as stated fails when the send of the error reply raises: the handler for
  \<^verbatim>\<open>boom\<close> raises and the payload of the message holds a datetime object, so
  \<^verbatim>\<open>json.dumps\<close> rejects the error reply; the message is popped and
  \<open>tasks_processed\<close> does not grow.
\<close>

theorem unreportable_failure_not_counted:
  "running (example_agent\<lparr>message_queue := [example_opaque]\<rparr>)
   \<and> message_queue (message_loop [(''err-1'', example_time)]
        (example_agent\<lparr>message_queue := [example_opaque]\<rparr>)) = []
   \<and> tasks_processed (message_loop [(''err-1'', example_time)]
        (example_agent\<lparr>message_queue := [example_opaque]\<rparr>))
      \<noteq> tasks_processed (example_agent\<lparr>message_queue := [example_opaque]\<rparr>) + 1"
  by (simp add: example_agent_def example_opaque_def message_loop_body_def process_message_def
      agent_send_message_cases error_response_def MCPMessage_init_def to_dict_def)

text \<open>
  Claim C1, at a failing input. The handler for \<^verbatim>\<open>boom\<close> raises \<^verbatim>\<open>kaput\<close>. The
  pass sends an error reply to the sender with the exception text, the serialized
  original and its correlation id, and the next pass processes the following message; but
  the error counter is the same after the pass as before it (and still 0 after both).
\<close>

theorem handler_failure_leaves_error_counter:
  "errors (message_loop [(''err-1'', example_time)]
             (example_agent\<lparr>message_queue := [example_boom, example_quiet]\<rparr>))
     = errors example_agent
   \<and> outbox (message_loop [(''err-1'', example_time)]
             (example_agent\<lparr>message_queue := [example_boom, example_quiet]\<rparr>))
     = [\<lparr>mcp_id = ''err-1'', mcp_timestamp = example_time, mcp_message_type = ''error'',
         payload = [(''error'', PyStr ''kaput''),
                    (''original_message'', PyDict (to_dict example_boom))],
         source = ''analyzer-1'', target = Some ''client-1'', mcp_correlation_id = ''req-1''\<rparr>]
   \<and> tasks_processed
        (message_loop [(''err-1'', example_time), (''err-2'', example_time)]
           (example_agent\<lparr>message_queue := [example_boom, example_quiet]\<rparr>)) = 2
   \<and> errors
        (message_loop [(''err-1'', example_time), (''err-2'', example_time)]
           (example_agent\<lparr>message_queue := [example_boom, example_quiet]\<rparr>)) = 0"
  by (simp add: example_agent_def example_boom_def example_quiet_def message_loop_body_def
      process_message_def agent_send_message_cases error_response_def MCPMessage_init_def
      to_dict_def)

lemma receive_message_appends:
  "receive_message a m = Some (a\<lparr>message_queue := message_queue a @ [m]\<rparr>)"
  by (simp add: receive_message_def queue_put_def mailbox_maxsize_def)

lemma receive_all_appends:
  "receive_all a ms = Some (a\<lparr>message_queue := message_queue a @ ms\<rparr>)"
  by (induction ms arbitrary: a) (simp_all add: receive_message_appends)

text \<open>
  Claim C4 as stated fails for the mailbox that \<open>receive_message\<close> fills: after three
  pushes without a pop all three messages are in the queue, the oldest first; nothing is
  evicted, whatever capacity below three is configured for the bus (here 2).
\<close>

theorem agent_mailbox_keeps_everything:
  "map_option message_queue (receive_all example_agent [example_boom, example_quiet, example_opaque])
     = Some [example_boom, example_quiet, example_opaque]
   \<and> map_option message_queue (receive_all example_agent [example_boom, example_quiet, example_opaque])
     \<noteq> Some (drop (3 - 2) [example_boom, example_quiet, example_opaque])"
  by (simp add: receive_all_appends example_agent_def)

section \<open>Properties of the bus\<close>

lemma count_simps:
  "stats (count_failed b) = (stats b)\<lparr>messages_failed := messages_failed (stats b) + 1\<rparr>"
  "stats (count_delivered b) = (stats b)\<lparr>messages_delivered := messages_delivered (stats b) + 1\<rparr>"
  "message_queues (count_failed b) = message_queues b"
  "message_queues (count_delivered b) = message_queues b"
  "agents (count_failed b) = agents b"
  "agents (count_delivered b) = agents b"
  "subscribers (count_failed b) = subscribers b"
  "subscribers (count_delivered b) = subscribers b"
  "max_queue_size (count_failed b) = max_queue_size b"
  "max_queue_size (count_delivered b) = max_queue_size b"
  "message_history (count_failed b) = message_history b"
  "message_history (count_delivered b) = message_history b"
  "message_ttl (count_failed b) = message_ttl b"
  "message_ttl (count_delivered b) = message_ttl b"
  by (simp_all add: count_failed_def count_delivered_def)

lemma cleanup_frame:
  assumes "cleanup_old_messages now b = Inr b'"
  shows "stats b' = stats b" "message_queues b' = message_queues b" "agents b' = agents b"
    "subscribers b' = subscribers b" "bus_message_handlers b' = bus_message_handlers b"
    "max_queue_size b' = max_queue_size b" "message_ttl b' = message_ttl b"
  using assms by (auto simp: cleanup_old_messages_def split: sum.splits if_splits)



lemma send_to_recipient_frame:
  "subscribers (snd (send_to_recipient b m)) = subscribers b"
  "agents (snd (send_to_recipient b m)) = agents b"
  "max_queue_size (snd (send_to_recipient b m)) = max_queue_size b"
  "message_history (snd (send_to_recipient b m)) = message_history b"
  "message_ttl (snd (send_to_recipient b m)) = message_ttl b"
  "messages_sent (stats (snd (send_to_recipient b m))) = messages_sent (stats b)"
  "messages_dropped (stats (snd (send_to_recipient b m))) = messages_dropped (stats b)"
  by (simp_all add: send_to_recipient_def Let_def count_simps split: option.splits)









lemma example_time_micros: "to_micros example_time = 63845629323000045"
  by (simp add: to_micros_def toordinal_def example_time_def days_before_year_def
      days_before_month_def days_in_month_def is_leap_def upt_rec)

lemma example_fanout_bus_eval:
  "subscribers_of example_fanout_bus LOG_ANALYSIS = [''analyzer-1'', ''analyzer-2'']"
  "stats example_fanout_bus = \<lparr>messages_sent = 0, messages_delivered = 0, messages_failed = 0, messages_dropped = 0\<rparr>"
  "message_history example_fanout_bus = []"
  by (simp_all add: example_fanout_bus_def subscribe_def register_agent_def MessageBus_init_def
      subscribers_of_def)

text \<open>
  A time-to-live of 1100000000 minutes puts the cut-off before \<^verbatim>\<open>datetime.min\<close>:
  the clean-up raises OverflowError, and a broadcast to two subscribers is counted as
  failed once and routed to nobody.
\<close>

lemma overflowing_ttl_counts_failed:
  "\<not> cleanup_returns example_time example_longlived_bus example_request
   \<and> fst (send_message example_ids example_time example_longlived_bus example_request) = False
   \<and> stats (snd (send_message example_ids example_time example_longlived_bus example_request))
       = \<lparr>messages_sent = 1, messages_delivered = 0, messages_failed = 1, messages_dropped = 0\<rparr>
   \<and> message_queues (snd (send_message example_ids example_time example_longlived_bus example_request))
       = Map.empty"
  by (simp add: send_message_def cleanup_returns_def cleanup_old_messages_def in_datetime_range_def
      example_time_micros example_longlived_bus_def subscribe_def register_agent_def
      MessageBus_init_def subscribers_of_def count_failed_def)




text \<open>
  Claim C9. A send addressed to a specific recipient id (not a broadcast sentinel) that is
  not registered returns \<open>False\<close> (the function returns a value on every path: nothing
  is raised), raises the sent and the failed counter by 1 each, leaves delivered and
  dropped as they were, and changes no mailbox.
\<close>

theorem send_unknown_recipient:
  assumes "recipient_id m \<notin> dom (agents b)" and "\<not> is_broadcast m"
  shows "fst (send_message ids now b m) = False
       \<and> messages_sent (stats (snd (send_message ids now b m))) = messages_sent (stats b) + 1
       \<and> messages_failed (stats (snd (send_message ids now b m))) = messages_failed (stats b) + 1
       \<and> messages_delivered (stats (snd (send_message ids now b m))) = messages_delivered (stats b)
       \<and> messages_dropped (stats (snd (send_message ids now b m))) = messages_dropped (stats b)
       \<and> message_queues (snd (send_message ids now b m)) = message_queues b"
proof -
  let ?b1 = "b\<lparr>stats := (stats b)\<lparr>messages_sent := messages_sent (stats b) + 1\<rparr>,
                message_history := message_history b @ [m]\<rparr>"
  show ?thesis
  proof (cases "cleanup_old_messages now ?b1")
    case (Inl e)
    then show ?thesis
      by (simp add: send_message_def count_simps)
  next
    case (Inr b2)
    have "recipient_id m \<notin> dom (agents b2)"
      using cleanup_frame(3)[OF Inr] assms(1) by simp
    then have "send_to_recipient b2 m = (False, count_failed b2)"
      by (simp add: send_to_recipient_def)
    then show ?thesis
      using Inr assms(2) cleanup_frame(1,2)[OF Inr]
      by (simp add: send_message_def count_simps)
  qed
qed

theorem send_unknown_recipient_witness:
  "''ghost'' \<notin> dom (agents example_bus)
   \<and> \<not> is_broadcast
         (AgentMessage_init ''m-2'' example_time None ''ingester-1'' ''ghost'' HEARTBEAT [] None None)
   \<and> fst (send_message example_ids example_time example_bus
            (AgentMessage_init ''m-2'' example_time None ''ingester-1'' ''ghost'' HEARTBEAT [] None None))
       = False
   \<and> messages_failed (stats (snd (send_message example_ids example_time example_bus
            (AgentMessage_init ''m-2'' example_time None ''ingester-1'' ''ghost'' HEARTBEAT [] None None))))
       = 1
   \<and> message_queues (snd (send_message example_ids example_time example_bus
            (AgentMessage_init ''m-2'' example_time None ''ingester-1'' ''ghost'' HEARTBEAT [] None None)))
       = message_queues example_bus"
  using send_unknown_recipient[of
      "AgentMessage_init ''m-2'' example_time None ''ingester-1'' ''ghost'' HEARTBEAT [] None None"
      example_bus example_ids example_time]
  by (simp add: AgentMessage_init_def example_bus_def subscribe_def register_agent_def
      MessageBus_init_def is_broadcast_def subscribers_of_def)

text \<open>
  Claim C6, at a failing input. An agent is registered, subscribes with a synchronous
  handler and is unregistered: the agent map no longer holds it, but
  \<open>bus_message_handlers\<close> still holds its handler table.
\<close>

theorem unregister_keeps_handler:
  "bus_message_handlers (unregister_agent example_bus ''analyzer-1'') ''analyzer-1'' \<noteq> None
   \<and> agents (unregister_agent example_bus ''analyzer-1'') ''analyzer-1'' = None"
  by (simp add: unregister_agent_def example_bus_def subscribe_def register_agent_def
      MessageBus_init_def subscribers_of_def)

text \<open>
  Claim C2, at a failing input. A broadcast message with correlation id
  \<^verbatim>\<open>corr-7\<close> is sent to a kind with one registered subscriber: the copy in the
  subscriber's mailbox has no correlation id.
\<close>

theorem broadcast_copy_drops_correlation:
  "correlation_id example_request = Some ''corr-7''
   \<and> map correlation_id
        (queue_of (snd (send_message example_ids example_time example_bus example_request))
           ''analyzer-1'') = [None]"
  by (simp add: send_message_def example_request_def AgentMessage_init_def example_bus_def
      subscribe_def register_agent_def MessageBus_init_def subscribers_of_def
      cleanup_old_messages_def in_datetime_range_def example_time_micros is_broadcast_def broadcast_message_def
      send_to_recipient_def recipient_copy_def queue_of_def deque_append_def count_delivered_def
      Let_def)

subsection \<open>The bounded mailbox\<close>

lemma tl_window:
  assumes "length q \<le> n" "n < length (q @ [x])"
  shows "tl (q @ [x]) = drop (length (q @ [x]) - n) (q @ [x])"
proof -
  have "length (q @ [x]) - n = Suc 0" using assms by simp
  then show ?thesis by (simp only: drop_Suc drop_0)
qed

lemma drop_window:
  assumes "length q \<le> n"
  shows "drop (length (drop (length (q @ [m]) - n) (q @ [m]) @ ms) - n)
             (drop (length (q @ [m]) - n) (q @ [m]) @ ms)
         = drop (length (q @ m # ms) - n) (q @ m # ms)"
proof (cases "length q = n")
  case True
  have 1: "drop (length (q @ [m]) - n) (q @ [m]) @ ms = drop (Suc 0) (q @ m # ms)"
    using True by (cases q) simp_all
  have 2: "length (drop (Suc 0) (q @ m # ms)) - n = length ms"
    using True by simp
  have 3: "length (q @ m # ms) - n = Suc (length ms)"
    using True by simp
  show ?thesis
    unfolding 1 2 3 by (simp only: drop_drop) simp
next
  case False
  then have "length (q @ [m]) - n = 0" using assms by simp
  then show ?thesis by simp
qed

lemma deque_append_bounded:
  assumes "length q \<le> n"
  shows "deque_append n q x = drop (length (q @ [x]) - n) (q @ [x])"
    and "length (deque_append n q x) \<le> n"
proof -
  show "deque_append n q x = drop (length (q @ [x]) - n) (q @ [x])"
  proof (cases "n < length (q @ [x])")
    case True
    then show ?thesis
      using tl_window[OF assms True] by (simp only: deque_append_def if_True)
  next
    case False
    then show ?thesis by (simp add: deque_append_def)
  qed
  show "length (deque_append n q x) \<le> n"
    using assms by (simp add: deque_append_def)
qed

lemma send_to_recipient_queue:
  assumes "recipient_id m \<in> dom (agents b)"
  shows "queue_of (snd (send_to_recipient b m)) (recipient_id m)
           = deque_append (max_queue_size b) (queue_of b (recipient_id m)) m"
    and "fst (send_to_recipient b m)"
  using assms
  by (simp_all add: send_to_recipient_def Let_def queue_of_def count_delivered_def
      split: option.splits)

lemma push_all_queue:
  assumes "r \<in> dom (agents b)" and "\<forall>m\<in>set ms. recipient_id m = r"
    and "length (queue_of b r) \<le> max_queue_size b"
  shows "queue_of (fold (\<lambda>m b. snd (send_to_recipient b m)) ms b) r
           = drop (length (queue_of b r @ ms) - max_queue_size b) (queue_of b r @ ms)"
  using assms
proof (induction ms arbitrary: b)
  case Nil
  then show ?case by simp
next
  case (Cons m ms)
  let ?b' = "snd (send_to_recipient b m)"
  let ?n = "max_queue_size b"
  let ?q = "queue_of b r"
  have rm: "recipient_id m = r" using Cons.prems(2) by simp
  then have reg: "recipient_id m \<in> dom (agents b)" using Cons.prems(1) by simp
  have q': "queue_of ?b' r = deque_append ?n ?q m"
    using send_to_recipient_queue(1)[OF reg] rm by simp
  have q'd: "queue_of ?b' r = drop (length (?q @ [m]) - ?n) (?q @ [m])"
    and len: "length (queue_of ?b' r) \<le> ?n"
    using deque_append_bounded[OF Cons.prems(3), of m] q' by simp_all
  have a': "r \<in> dom (agents ?b')"
    using send_to_recipient_frame(2)[of b m] Cons.prems(1) by simp
  have n': "max_queue_size ?b' = ?n"
    using send_to_recipient_frame(3)[of b m] .
  have "queue_of (fold (\<lambda>m b. snd (send_to_recipient b m)) ms ?b') r
          = drop (length (queue_of ?b' r @ ms) - ?n) (queue_of ?b' r @ ms)"
    using Cons.IH[of ?b'] a' Cons.prems(2) len n' by simp
  also have "\<dots> = drop (length (?q @ m # ms) - ?n) (?q @ m # ms)"
    unfolding q'd by (rule drop_window[OF Cons.prems(3)])
  finally show ?case by simp
qed

text \<open>
  Claim C4, as amended. \<open>receive_message\<close> never blocks: the agent's own queue is
  unbounded and the message is appended to it. The bound is that of the bus's mailbox of
  a registered recipient \<open>r\<close>: after pushing more than \<open>max_queue_size\<close> messages
  addressed to \<open>r\<close> through \<open>send_to_recipient\<close>, with no pops, onto a mailbox within
  its bound, the mailbox holds exactly the most recent \<open>max_queue_size\<close> of them.
\<close>

theorem mailbox_bounds:
  "receive_message a m = Some (a\<lparr>message_queue := message_queue a @ [m]\<rparr>)
   \<and> (r \<in> dom (agents b) \<longrightarrow> (\<forall>x\<in>set ms. recipient_id x = r) \<longrightarrow>
        length (queue_of b r) \<le> max_queue_size b \<longrightarrow> max_queue_size b < length ms \<longrightarrow>
        queue_of (fold (\<lambda>x b. snd (send_to_recipient b x)) ms b) r
          = drop (length ms - max_queue_size b) ms
        \<and> length (queue_of (fold (\<lambda>x b. snd (send_to_recipient b x)) ms b) r) = max_queue_size b)"
proof -
  have "queue_of (fold (\<lambda>x b. snd (send_to_recipient b x)) ms b) r
          = drop (length ms - max_queue_size b) ms"
    if h: "r \<in> dom (agents b)" "\<forall>x\<in>set ms. recipient_id x = r"
      "length (queue_of b r) \<le> max_queue_size b" "max_queue_size b < length ms"
  proof -
    have "length (queue_of b r @ ms) - max_queue_size b
            = length (queue_of b r) + (length ms - max_queue_size b)"
      using h(3,4) by simp
    then show ?thesis
      using push_all_queue[OF h(1,2,3)] by simp
  qed
  then show ?thesis
    by (auto simp: receive_message_appends)
qed

theorem mailbox_bounds_witness:
  "''analyzer-1'' \<in> dom (agents example_small_bus)
   \<and> max_queue_size example_small_bus < length [example_note ''n-1'', example_note ''n-2'', example_note ''n-3'']
   \<and> queue_of
        (fold (\<lambda>x b. snd (send_to_recipient b x))
           [example_note ''n-1'', example_note ''n-2'', example_note ''n-3''] example_small_bus)
        ''analyzer-1''
      = [example_note ''n-2'', example_note ''n-3'']"
  using mailbox_bounds[of example_agent example_boom "''analyzer-1''" example_small_bus
      "[example_note ''n-1'', example_note ''n-2'', example_note ''n-3'']"]
  by (simp add: example_small_bus_def register_agent_def MessageBus_init_def queue_of_def
      example_note_def AgentMessage_init_def)

subsection \<open>The history after a send\<close>






section \<open>Properties of the registry\<close>





























end
